theory Spec2Isabelle
  imports Main "HOL-Library.Word"
begin

section \<open>The Cray/Aries process-tracking plugin (proctrack\_cray\_aries.c)\<close>

text \<open>
  The model follows the build with \<^verbatim>\<open>HAVE_NATIVE_CRAY\<close> defined, the only build in
  which the bodies of the plugin's operations are compiled in. The calls into Cray's
  job library, the C library and the thread library are not part of the plugin: they are
  parameters of the model (a record of functions over an opaque state of the operating
  system), and every call is recorded in a trace, so that statements such as
  "no detach is performed" can be made about a run.

  The timing instrumentation (\<^verbatim>\<open>DEF_TIMERS\<close>, \<^verbatim>\<open>START_TIMER\<close>, \<^verbatim>\<open>END_TIMER\<close>, the
  \<^verbatim>\<open>INFO_LINE\<close> under the debug flag) and the allocation and release of the pid buffer
  (\<^verbatim>\<open>xmalloc\<close>, \<^verbatim>\<open>xfree\<close>) have no influence on any result and are left out.
\<close>

subsection \<open>C types and constants\<close>

type_synonym c_int = "32 word"
type_synonym pid_t = "32 word"
type_synonym uid_t = "32 word"
type_synonym pthread_t = "64 word"

text \<open>
  Modelled from the spec: \<^verbatim>\<open>jid_t\<close> is declared in Cray's \<^verbatim>\<open>job.h\<close>, which is not
  among the sources; the spec describes a container id as a kernel-assigned unsigned
  64-bit identifier, and the code converts between \<^verbatim>\<open>jid_t\<close> and \<^verbatim>\<open>uint64_t\<close> freely.
\<close>

type_synonym jid_t = "64 word"

definition SLURM_SUCCESS :: c_int where "SLURM_SUCCESS = 0"
definition SLURM_ERROR :: c_int where "SLURM_ERROR = - 1"

text \<open>The values of \<^verbatim>\<open>errno.h\<close> and \<^verbatim>\<open>signal.h\<close> on Linux, and \<^verbatim>\<open>NO_VAL\<close> of slurm.h.\<close>

definition EINTR :: c_int where "EINTR = 4"
definition EBADF :: c_int where "EBADF = 9"
definition EINVAL :: c_int where "EINVAL = 22"
definition ENODATA :: c_int where "ENODATA = 61"
definition SIGKILL :: c_int where "SIGKILL = 9"
definition SIGTERM :: c_int where "SIGTERM = 15"
definition NO_VAL :: "32 word" where "NO_VAL = 0xfffffffe"

subsection \<open>The step record\<close>

text \<open>The fields of \<^verbatim>\<open>stepd_step_rec_t\<close> that the plugin reads or writes.\<close>

record stepd_step_rec =
  cont_id :: "64 word"
  uid :: uid_t
  het_job_id :: "32 word"
  job_id :: "32 word"
  step_id :: "32 word"

subsection \<open>Events of a run\<close>

datatype mutex = Thread_mutex | Notify_mutex

datatype message =
    Plugin_loaded
  | Failed_to_create_job_container
  | Had_a_thread_already
  | Last_thread_done
  | Created_jid
  | Already_have_a_cont_id
  | Add_again_to_same_container
  | Attached_incorrectly
  | Could_not_detach
  | Failed_to_attach
  | Failed_to_set_apid
  | Failed_to_open
  | Failed_to_write
  | Signal_before_anything_added
  | Destroying
  | Getpidlist_failed

datatype event =
    Job_create uid_t
  | Job_attachpid pid_t jid_t
  | Job_detachpid pid_t
  | Job_getjid pid_t
  | Job_killjid jid_t c_int
  | Job_waitjid jid_t
  | Job_getpidcnt jid_t
  | Job_getpidlist jid_t c_int
  | Job_setapid pid_t "64 word"
  | Sys_open pid_t
  | Sys_write c_int
  | Sys_close c_int
  | Mutex_lock mutex
  | Mutex_unlock mutex
  | Cond_signal
  | Cond_wait
  | Thread_create pthread_t
  | Thread_join pthread_t
  | Log_error message
  | Log_debug message

subsection \<open>The platform and the state of the plugin\<close>

text \<open>
  The platform: Cray's job library, the three file calls on
  \<^verbatim>\<open>/proc/<pid>/task_is_app\<close>, the thread id given to a new thread, \<^verbatim>\<open>errno\<close>, and the
  macro \<^verbatim>\<open>SLURM_ID_HASH\<close> of slurm.h. Each call takes the state of the operating system
  and returns its result with the new state; \<^verbatim>\<open>errno\<close> is read from that state.
\<close>

record 'k platform =
  p_job_create :: "jid_t \<Rightarrow> uid_t \<Rightarrow> c_int \<Rightarrow> 'k \<Rightarrow> jid_t \<times> 'k"
  p_job_attachpid :: "pid_t \<Rightarrow> jid_t \<Rightarrow> 'k \<Rightarrow> jid_t \<times> 'k"
  p_job_detachpid :: "pid_t \<Rightarrow> 'k \<Rightarrow> jid_t \<times> 'k"
  p_job_getjid :: "pid_t \<Rightarrow> 'k \<Rightarrow> jid_t \<times> 'k"
  p_job_killjid :: "jid_t \<Rightarrow> c_int \<Rightarrow> 'k \<Rightarrow> c_int \<times> 'k"
  p_job_waitjid :: "jid_t \<Rightarrow> c_int \<Rightarrow> 'k \<Rightarrow> jid_t \<times> 'k"
  p_job_getpidcnt :: "jid_t \<Rightarrow> 'k \<Rightarrow> c_int \<times> 'k"
  p_job_getpidlist :: "jid_t \<Rightarrow> c_int \<Rightarrow> 'k \<Rightarrow> (c_int \<times> pid_t list) \<times> 'k"
  p_job_setapid :: "pid_t \<Rightarrow> 64 word \<Rightarrow> 'k \<Rightarrow> c_int \<times> 'k"
  p_open :: "pid_t \<Rightarrow> 'k \<Rightarrow> c_int \<times> 'k"
  p_write :: "c_int \<Rightarrow> 'k \<Rightarrow> 64 word \<times> 'k"
  p_close :: "c_int \<Rightarrow> 'k \<Rightarrow> c_int \<times> 'k"
  p_thread_create :: "'k \<Rightarrow> pthread_t \<times> 'k"
  p_errno :: "'k \<Rightarrow> c_int"
  SLURM_ID_HASH :: "32 word \<Rightarrow> 32 word \<Rightarrow> 64 word"

text \<open>
  The state: the operating system, the plugin's static variables \<^verbatim>\<open>threadid\<close> and
  \<^verbatim>\<open>libjob_handle\<close>, the global \<^verbatim>\<open>proctrack_forked\<close> of proctrack.h, and the trace.
\<close>

record 'k world =
  os :: 'k
  threadid :: pthread_t
  libjob_handle :: "64 word"
  proctrack_forked :: bool
  trace :: "event list"

definition sys :: "('k \<Rightarrow> 'r \<times> 'k) \<Rightarrow> event \<Rightarrow> 'k world \<Rightarrow> 'r \<times> 'k world" where
  "sys f e w = (case f (os w) of (r, k) \<Rightarrow> (r, w\<lparr>os := k, trace := trace w @ [e]\<rparr>))"

definition emit :: "event list \<Rightarrow> 'k world \<Rightarrow> 'k world" where
  "emit es w = w\<lparr>trace := trace w @ es\<rparr>"

definition errno :: "'k platform \<Rightarrow> 'k world \<Rightarrow> c_int" where
  "errno plat w = p_errno plat (os w)"

definition job_create :: "'k platform \<Rightarrow> jid_t \<Rightarrow> uid_t \<Rightarrow> c_int \<Rightarrow> 'k world \<Rightarrow> jid_t \<times> 'k world" where
  "job_create plat j u opts = sys (p_job_create plat j u opts) (Job_create u)"

definition job_attachpid :: "'k platform \<Rightarrow> pid_t \<Rightarrow> jid_t \<Rightarrow> 'k world \<Rightarrow> jid_t \<times> 'k world" where
  "job_attachpid plat pid jid = sys (p_job_attachpid plat pid jid) (Job_attachpid pid jid)"

definition job_detachpid :: "'k platform \<Rightarrow> pid_t \<Rightarrow> 'k world \<Rightarrow> jid_t \<times> 'k world" where
  "job_detachpid plat pid = sys (p_job_detachpid plat pid) (Job_detachpid pid)"

definition job_getjid :: "'k platform \<Rightarrow> pid_t \<Rightarrow> 'k world \<Rightarrow> jid_t \<times> 'k world" where
  "job_getjid plat pid = sys (p_job_getjid plat pid) (Job_getjid pid)"

definition job_killjid :: "'k platform \<Rightarrow> jid_t \<Rightarrow> c_int \<Rightarrow> 'k world \<Rightarrow> c_int \<times> 'k world" where
  "job_killjid plat jid sig = sys (p_job_killjid plat jid sig) (Job_killjid jid sig)"

definition job_waitjid :: "'k platform \<Rightarrow> jid_t \<Rightarrow> c_int \<Rightarrow> 'k world \<Rightarrow> jid_t \<times> 'k world" where
  "job_waitjid plat jid opts = sys (p_job_waitjid plat jid opts) (Job_waitjid jid)"

definition job_getpidcnt :: "'k platform \<Rightarrow> jid_t \<Rightarrow> 'k world \<Rightarrow> c_int \<times> 'k world" where
  "job_getpidcnt plat jid = sys (p_job_getpidcnt plat jid) (Job_getpidcnt jid)"

definition job_getpidlist ::
  "'k platform \<Rightarrow> jid_t \<Rightarrow> c_int \<Rightarrow> 'k world \<Rightarrow> (c_int \<times> pid_t list) \<times> 'k world" where
  "job_getpidlist plat jid bufsize = sys (p_job_getpidlist plat jid bufsize) (Job_getpidlist jid bufsize)"

definition job_setapid :: "'k platform \<Rightarrow> pid_t \<Rightarrow> 64 word \<Rightarrow> 'k world \<Rightarrow> c_int \<times> 'k world" where
  "job_setapid plat pid apid = sys (p_job_setapid plat pid apid) (Job_setapid pid apid)"

definition sys_open :: "'k platform \<Rightarrow> pid_t \<Rightarrow> 'k world \<Rightarrow> c_int \<times> 'k world" where
  "sys_open plat pid = sys (p_open plat pid) (Sys_open pid)"

definition sys_write :: "'k platform \<Rightarrow> c_int \<Rightarrow> 'k world \<Rightarrow> 64 word \<times> 'k world" where
  "sys_write plat fd = sys (p_write plat fd) (Sys_write fd)"

definition sys_close :: "'k platform \<Rightarrow> c_int \<Rightarrow> 'k world \<Rightarrow> c_int \<times> 'k world" where
  "sys_close plat fd = sys (p_close plat fd) (Sys_close fd)"

subsection \<open>Retiring the worker thread\<close>

text \<open>
  \<^verbatim>\<open>_end_container_thread\<close>: if a thread handle is recorded, wake the worker, join it and
  clear the handle. The join is taken to return: the worker leaves its wait when it is
  signalled.
\<close>

definition end_container_thread :: "'k world \<Rightarrow> 'k world" where
  "end_container_thread w =
     (if threadid w \<noteq> 0 then
        emit [Mutex_unlock Thread_mutex]
          ((emit [Mutex_lock Thread_mutex, Mutex_lock Notify_mutex, Cond_signal,
                  Mutex_unlock Notify_mutex, Thread_join (threadid w)] w)\<lparr>threadid := 0\<rparr>)
      else w)"

definition init :: "'k world \<Rightarrow> c_int \<times> 'k world" where
  "init w = (SLURM_SUCCESS, emit [Log_debug Plugin_loaded] w)"

subsection \<open>Membership test, find, wait, destroy, signal\<close>

definition proctrack_p_has_pid :: "'k platform \<Rightarrow> 64 word \<Rightarrow> pid_t \<Rightarrow> 'k world \<Rightarrow> bool \<times> 'k world" where
  "proctrack_p_has_pid plat cid pid w =
     (case job_getjid plat pid w of (jid, w1) \<Rightarrow>
        if jid = - 1 then (False, w1)
        else if jid \<noteq> cid then (False, w1)
        else (True, w1))"

definition proctrack_p_find :: "'k platform \<Rightarrow> pid_t \<Rightarrow> 'k world \<Rightarrow> 64 word \<times> 'k world" where
  "proctrack_p_find plat pid w =
     (case job_getjid plat pid w of (jid, w1) \<Rightarrow>
        if jid = - 1 then (0, w1) else (jid, w1))"

definition proctrack_p_wait :: "'k platform \<Rightarrow> 64 word \<Rightarrow> 'k world \<Rightarrow> c_int \<times> 'k world" where
  "proctrack_p_wait plat cid w =
     (if threadid w = 0 then
        (case job_waitjid plat cid 0 w of (r, w1) \<Rightarrow>
           if r = - 1 then (SLURM_ERROR, w1) else (SLURM_SUCCESS, w1))
      else (SLURM_SUCCESS, w))"

definition proctrack_p_destroy :: "'k platform \<Rightarrow> 64 word \<Rightarrow> 'k world \<Rightarrow> c_int \<times> 'k world" where
  "proctrack_p_destroy plat cid w =
     (let w1 = emit [Log_debug Destroying] w in
      if threadid w1 = 0 then
        (case job_waitjid plat cid 0 w1 of (r, w2) \<Rightarrow> (SLURM_SUCCESS, w2))
      else (SLURM_SUCCESS, w1))"

definition proctrack_p_signal :: "'k platform \<Rightarrow> 64 word \<Rightarrow> c_int \<Rightarrow> 'k world \<Rightarrow> c_int \<times> 'k world" where
  "proctrack_p_signal plat cid sig w =
     (if threadid w = 0 then
        (case job_killjid plat cid sig w of (r, w1) \<Rightarrow>
           if r <s 0 \<and> errno plat w1 \<noteq> ENODATA \<and> errno plat w1 \<noteq> EBADF
           then (SLURM_ERROR, w1)
           else (SLURM_SUCCESS, w1))
      else if sig = SIGKILL then (SLURM_SUCCESS, end_container_thread w)
      else (SLURM_SUCCESS, emit [Log_error Signal_before_anything_added] w))"

subsection \<open>Enumeration\<close>



subsection \<open>Creation handshake\<close>

text \<open>
  \<^verbatim>\<open>_create_container_thread\<close>, the body of the worker, run from its start up to the
  point where it either exits (creation failed) or parks in its second wait. It writes
  the created id into the step record it was given.
\<close>

definition create_container_thread ::
  "'k platform \<Rightarrow> stepd_step_rec \<Rightarrow> 'k world \<Rightarrow> stepd_step_rec \<times> 'k world" where
  "create_container_thread plat step w =
     (case job_create plat 0 (uid step) 0 w of (jid, w1) \<Rightarrow>
        let step1 = step\<lparr>cont_id := jid\<rparr>;
            w2 = emit [Mutex_lock Notify_mutex, Cond_signal] w1
        in if cont_id step1 = - 1
           then (step1, emit [Log_error Failed_to_create_job_container, Mutex_unlock Notify_mutex] w2)
           else (step1, emit [Cond_wait] w2))"

text \<open>
  \<^verbatim>\<open>proctrack_p_create\<close>. The model is sequential: the caller and the worker it starts
  are the only threads that run. A caller that finds a thread handle recorded waits
  on the condition variable while it holds the thread mutex; the worker of the earlier
  creation has already sent its notification and retirement needs the thread mutex, so
  in this model the wait never returns. That outcome is \<open>None\<close>.
\<close>

definition proctrack_p_create ::
  "'k platform \<Rightarrow> stepd_step_rec \<Rightarrow> 'k world \<Rightarrow> (c_int \<times> stepd_step_rec \<times> 'k world) option" where
  "proctrack_p_create plat step w0 =
     (let w = (if libjob_handle w0 = 0 then snd (init w0) else w0) in
      if cont_id step = 0 then
        if proctrack_forked w then
          (case job_create plat 0 (uid step) 0 w of (jid, w1) \<Rightarrow>
             Some (SLURM_SUCCESS, step\<lparr>cont_id := jid\<rparr>, w1))
        else
          let w1 = emit [Mutex_lock Thread_mutex] w in
          if threadid w1 \<noteq> 0 then None
          else
            (case p_thread_create plat (os w1) of (tid, k) \<Rightarrow>
               let w2 = (emit [Mutex_lock Notify_mutex, Thread_create tid] w1)
                          \<lparr>os := k, threadid := tid\<rparr>;
                   w3 = emit [Cond_wait] w2
               in case create_container_thread plat step w3 of (step1, w4) \<Rightarrow>
                    let w5 = emit [Mutex_unlock Notify_mutex, Mutex_unlock Thread_mutex] w4;
                        w6 = (if cont_id step1 \<noteq> - 1 then emit [Log_debug Created_jid] w5 else w5)
                    in Some (SLURM_SUCCESS, step1, w6))
      else Some (SLURM_SUCCESS, step, emit [Log_error Already_have_a_cont_id] w))"

subsection \<open>Membership control\<close>

text \<open>
  The loop of \<^verbatim>\<open>proctrack_p_add\<close> between the label \<^verbatim>\<open>try_again\<close> and the call of
  \<^verbatim>\<open>_end_container_thread\<close>, with the retry counter as a parameter. \<open>Inl rc\<close> is a
  \<^verbatim>\<open>return rc\<close> inside the loop; \<open>Inr ()\<close> leaves the loop towards the rest of the
  function.
\<close>

function add_try ::
  "'k platform \<Rightarrow> stepd_step_rec \<Rightarrow> pid_t \<Rightarrow> nat \<Rightarrow> 'k world \<Rightarrow> (c_int + unit) \<times> 'k world" where
  "add_try plat step pid count w =
     (if proctrack_forked w then (Inr (), w)
      else
        (case job_attachpid plat pid (cont_id step) w of (r, w1) \<Rightarrow>
           if r = - 1 then
             if errno plat w1 = EINVAL \<and> count < 1 then
               (case proctrack_p_has_pid plat (cont_id step) pid w1 of (member, w2) \<Rightarrow>
                  if member
                  then (Inl SLURM_SUCCESS, emit [Log_debug Add_again_to_same_container] w2)
                  else
                    (case job_detachpid plat pid w2 of (jid, w3) \<Rightarrow>
                       if jid \<noteq> - 1
                       then add_try plat step pid (count + 1) (emit [Log_error Attached_incorrectly] w3)
                       else (Inl SLURM_ERROR, emit [Log_error Could_not_detach] w3)))
             else (Inl SLURM_ERROR, emit [Log_error Failed_to_attach] w1)
           else (Inr (), w1)))"
  by pat_completeness auto
termination
  by (relation "measure (\<lambda>(plat, step, pid, count, w). 1 - count)") auto

declare add_try.simps [simp del]

text \<open>
  \<^verbatim>\<open>TEMP_FAILURE_RETRY(close(fd))\<close>: the call is repeated for as long as it fails with
  \<^verbatim>\<open>EINTR\<close>. Nothing bounds the number of repetitions, so the loop is a partial
  function: \<open>None\<close> when it never ends.
\<close>

partial_function (option) close_retry :: "'k platform \<Rightarrow> c_int \<Rightarrow> 'k world \<Rightarrow> 'k world option" where
  "close_retry plat fd w =
     (case sys_close plat fd w of (r, w1) \<Rightarrow>
        if r = - 1 \<and> errno plat w1 = EINTR then close_retry plat fd w1 else Some w1)"

declare close_retry.simps [code]

definition proctrack_p_add ::
  "'k platform \<Rightarrow> stepd_step_rec \<Rightarrow> pid_t \<Rightarrow> 'k world \<Rightarrow> (c_int \<times> stepd_step_rec \<times> 'k world) option" where
  "proctrack_p_add plat step pid w =
     (case add_try plat step pid 0 w of
        (Inl rc, w1) \<Rightarrow> Some (rc, step, w1)
      | (Inr _, w1) \<Rightarrow>
          let w2 = end_container_thread w1;
              jobid = (if het_job_id step \<noteq> 0 \<and> het_job_id step \<noteq> NO_VAL
                       then het_job_id step else job_id step)
          in case job_setapid plat pid (SLURM_ID_HASH plat jobid (step_id step)) w2 of (r, w3) \<Rightarrow>
               if r = - 1 then Some (SLURM_ERROR, step, emit [Log_error Failed_to_set_apid] w3)
               else
                 (case sys_open plat pid w3 of (fd, w4) \<Rightarrow>
                    if fd = - 1 then Some (SLURM_ERROR, step, emit [Log_error Failed_to_open] w4)
                    else
                      (case sys_write plat fd w4 of (n, w5) \<Rightarrow>
                         if n <s 1 then
                           map_option (\<lambda>w6. (SLURM_ERROR, step, w6))
                             (close_retry plat fd (emit [Log_error Failed_to_write] w5))
                         else
                           map_option (\<lambda>w6. (SLURM_SUCCESS, step, w6))
                             (close_retry plat fd w5))))"

subsection \<open>A scripted platform\<close>

text \<open>
  A platform for concrete runs: its state is the current \<^verbatim>\<open>errno\<close> and a script of
  replies, each a return value with the \<^verbatim>\<open>errno\<close> it leaves behind. Every call consumes
  the next reply; with the script used up a call returns 0 and keeps \<^verbatim>\<open>errno\<close>. The pid
  list call fills the buffer with as many pids (numbered from 1) as it reports.
\<close>

type_synonym script = "c_int \<times> (int \<times> c_int) list"

definition next_reply :: "script \<Rightarrow> int \<times> script" where
  "next_reply k = (case snd k of [] \<Rightarrow> (0, k) | (v, e) # rs \<Rightarrow> (v, (e, rs)))"

definition reply32 :: "script \<Rightarrow> 32 word \<times> script" where
  "reply32 k = (case next_reply k of (v, k1) \<Rightarrow> (word_of_int v, k1))"

definition reply64 :: "script \<Rightarrow> 64 word \<times> script" where
  "reply64 k = (case next_reply k of (v, k1) \<Rightarrow> (word_of_int v, k1))"

definition reply_pids :: "script \<Rightarrow> (c_int \<times> pid_t list) \<times> script" where
  "reply_pids k = (case next_reply k of (v, k1) \<Rightarrow>
     ((word_of_int v, map word_of_int [1 .. v]), k1))"

definition scripted :: "script platform" where
  "scripted =
     \<lparr> p_job_create = (\<lambda>j u opts. reply64),
       p_job_attachpid = (\<lambda>pid jid. reply64),
       p_job_detachpid = (\<lambda>pid. reply64),
       p_job_getjid = (\<lambda>pid. reply64),
       p_job_killjid = (\<lambda>jid sig. reply32),
       p_job_waitjid = (\<lambda>jid opts. reply64),
       p_job_getpidcnt = (\<lambda>jid. reply32),
       p_job_getpidlist = (\<lambda>jid bufsize. reply_pids),
       p_job_setapid = (\<lambda>pid apid. reply32),
       p_open = (\<lambda>pid. reply32),
       p_write = (\<lambda>fd. reply64),
       p_close = (\<lambda>fd. reply32),
       p_thread_create = reply64,
       p_errno = fst,
       SLURM_ID_HASH = (\<lambda>jobid stepid. ucast jobid + ucast stepid * 10000000000) \<rparr>"

definition start :: "(int \<times> c_int) list \<Rightarrow> pthread_t \<Rightarrow> script world" where
  "start replies tid =
     \<lparr> os = (0, replies), threadid = tid, libjob_handle = 0,
       proctrack_forked = False, trace = [] \<rparr>"

definition a_step :: "64 word \<Rightarrow> stepd_step_rec" where
  "a_step cid = \<lparr> cont_id = cid, uid = 1000, het_job_id = 0, job_id = 42, step_id = 0 \<rparr>"

subsection \<open>Reading a trace\<close>

definition new_events :: "'k world \<Rightarrow> 'k world \<Rightarrow> event list" where
  "new_events w w' = drop (length (trace w)) (trace w')"

fun is_attach :: "event \<Rightarrow> bool" where
  "is_attach (Job_attachpid pid jid) = True"
| "is_attach e = False"

fun is_detach :: "event \<Rightarrow> bool" where
  "is_detach (Job_detachpid pid) = True"
| "is_detach e = False"

definition attach_calls :: "event list \<Rightarrow> nat" where
  "attach_calls es = length (filter is_attach es)"

definition detach_calls :: "event list \<Rightarrow> nat" where
  "detach_calls es = length (filter is_detach es)"

text \<open>
  What a caller can observe of a call of \<^verbatim>\<open>proctrack_p_add\<close>: the status, the thread
  handle afterwards and the events of the call. Likewise for \<^verbatim>\<open>proctrack_p_create\<close>,
  with the step record and the state of the operating system afterwards.
\<close>

definition add_outcome ::
  "'k platform \<Rightarrow> stepd_step_rec \<Rightarrow> pid_t \<Rightarrow> 'k world \<Rightarrow> (c_int \<times> pthread_t \<times> event list) option" where
  "add_outcome plat step pid w =
     map_option (\<lambda>(rc, step', w'). (rc, threadid w', new_events w w'))
       (proctrack_p_add plat step pid w)"

definition create_outcome ::
  "'k platform \<Rightarrow> stepd_step_rec \<Rightarrow> 'k world \<Rightarrow>
     (c_int \<times> stepd_step_rec \<times> 'k \<times> pthread_t \<times> event list) option" where
  "create_outcome plat step w =
     map_option (\<lambda>(rc, step', w'). (rc, step', os w', threadid w', new_events w w'))
       (proctrack_p_create plat step w)"

text \<open>
  The situation in which \<^verbatim>\<open>proctrack_p_add\<close> takes its shortcut: the first attach fails
  with \<^verbatim>\<open>EINVAL\<close> and the pid is found in the target container.
\<close>

definition already_member :: "'k platform \<Rightarrow> stepd_step_rec \<Rightarrow> pid_t \<Rightarrow> 'k world \<Rightarrow> bool" where
  "already_member plat step pid w \<longleftrightarrow>
     \<not> proctrack_forked w \<and>
     fst (job_attachpid plat pid (cont_id step) w) = - 1 \<and>
     errno plat (snd (job_attachpid plat pid (cont_id step) w)) = EINVAL \<and>
     fst (proctrack_p_has_pid plat (cont_id step) pid (snd (job_attachpid plat pid (cont_id step) w)))"

section \<open>Properties\<close>

subsection \<open>Frame and trace lemmas\<close>

lemma sys_simps:
  "trace (snd (sys f e w)) = trace w @ [e]"
  "threadid (snd (sys f e w)) = threadid w"
  "proctrack_forked (snd (sys f e w)) = proctrack_forked w"
  "libjob_handle (snd (sys f e w)) = libjob_handle w"
  "os (snd (sys f e w)) = snd (f (os w))"
  "fst (sys f e w) = fst (f (os w))"
  by (simp_all add: sys_def split: prod.splits)

lemma emit_simps:
  "trace (emit es w) = trace w @ es"
  "threadid (emit es w) = threadid w"
  "proctrack_forked (emit es w) = proctrack_forked w"
  "libjob_handle (emit es w) = libjob_handle w"
  "os (emit es w) = os w"
  by (simp_all add: emit_def)

lemmas call_defs = job_create_def job_attachpid_def job_detachpid_def job_getjid_def
  job_killjid_def job_waitjid_def job_getpidcnt_def job_getpidlist_def job_setapid_def
  sys_open_def sys_write_def sys_close_def

lemma close_retry_step:
  assumes IH: "\<And>plat fd w y. f plat fd w = Some y \<Longrightarrow>
                 threadid y = threadid w \<and> (\<exists>n. trace y = trace w @ replicate n (Sys_close fd))"
    and eq: "(case sys_close plat fd w of (r, w1) \<Rightarrow>
                if r = - 1 \<and> errno plat w1 = EINTR then f plat fd w1 else Some w1) = Some w'"
  shows "threadid w' = threadid w \<and> (\<exists>n. trace w' = trace w @ replicate n (Sys_close fd))"
proof (cases "fst (sys_close plat fd w) = - 1 \<and> errno plat (snd (sys_close plat fd w)) = EINTR")
  case True
  with eq have "f plat fd (snd (sys_close plat fd w)) = Some w'"
    by (simp add: split_beta)
  from IH[OF this] obtain n where
    "threadid w' = threadid w" "trace w' = trace w @ replicate (Suc n) (Sys_close fd)"
    by (auto simp: sys_close_def sys_simps)
  then show ?thesis by blast
next
  case False
  with eq have "w' = snd (sys_close plat fd w)"
    by (auto simp add: split_beta)
  then have "threadid w' = threadid w" "trace w' = trace w @ replicate 1 (Sys_close fd)"
    by (simp_all add: sys_close_def sys_simps)
  then show ?thesis by blast
qed

lemma close_retry_frame:
  assumes "close_retry plat fd w = Some w'"
  shows "threadid w' = threadid w \<and> (\<exists>n. trace w' = trace w @ replicate n (Sys_close fd))"
  by (rule close_retry.raw_induct
        [where P = "\<lambda>plat fd w w'. threadid w' = threadid w \<and>
                      (\<exists>n. trace w' = trace w @ replicate n (Sys_close fd))", OF _ assms])
     (rule close_retry_step)

lemma add_try_retry:
  "add_try plat step pid (Suc 0) w =
     (if proctrack_forked w then (Inr (), w)
      else if fst (job_attachpid plat pid (cont_id step) w) = - 1
           then (Inl SLURM_ERROR, emit [Log_error Failed_to_attach] (snd (job_attachpid plat pid (cont_id step) w)))
           else (Inr (), snd (job_attachpid plat pid (cont_id step) w)))"
  by (subst add_try.simps) (simp add: split_beta)


lemma ect_simps:
  "threadid (end_container_thread w) = 0"
  "os (end_container_thread w) = os w"
  "proctrack_forked (end_container_thread w) = proctrack_forked w"
  "trace (end_container_thread w) = trace w @
     (if threadid w \<noteq> 0
      then [Mutex_lock Thread_mutex, Mutex_lock Notify_mutex, Cond_signal,
            Mutex_unlock Notify_mutex, Thread_join (threadid w), Mutex_unlock Thread_mutex]
      else [])"
  by (simp_all add: end_container_thread_def emit_def)

lemma add_try_first:
  assumes a1: "job_attachpid plat pid (cont_id step) w = (r1, w1)"
      and hp: "proctrack_p_has_pid plat (cont_id step) pid w1 = (member, w2)"
      and dt: "job_detachpid plat pid w2 = (jd, w3)"
      and a2: "job_attachpid plat pid (cont_id step) (emit [Log_error Attached_incorrectly] w3) = (r2, w4)"
  shows "add_try plat step pid 0 w =
     (if proctrack_forked w then (Inr (), w)
      else if r1 \<noteq> - 1 then (Inr (), w1)
      else if errno plat w1 \<noteq> EINVAL then (Inl SLURM_ERROR, emit [Log_error Failed_to_attach] w1)
      else if member then (Inl SLURM_SUCCESS, emit [Log_debug Add_again_to_same_container] w2)
      else if jd = - 1 then (Inl SLURM_ERROR, emit [Log_error Could_not_detach] w3)
      else if r2 = - 1 then (Inl SLURM_ERROR, emit [Log_error Failed_to_attach] w4)
      else (Inr (), w4))"
proof -
  have "w1 = snd (job_attachpid plat pid (cont_id step) w)"
       "w2 = snd (job_getjid plat pid w1)"
       "w3 = snd (job_detachpid plat pid w2)"
    using a1 hp dt by (auto simp: proctrack_p_has_pid_def split_beta split: if_splits)
  then have nf: "proctrack_forked (emit [Log_error Attached_incorrectly] w3) = proctrack_forked w"
    by (simp add: emit_simps call_defs sys_simps)
  show ?thesis
    by (subst add_try.simps) (simp add: a1 hp dt a2 add_try_retry nf)
qed

lemma steps_trace:
  assumes a1: "job_attachpid plat pid cid w = (r1, w1)"
      and hp: "proctrack_p_has_pid plat cid pid w1 = (member, w2)"
      and dt: "job_detachpid plat pid w2 = (jd, w3)"
      and a2: "job_attachpid plat pid cid (emit [Log_error Attached_incorrectly] w3) = (r2, w4)"
  shows "trace w1 = trace w @ [Job_attachpid pid cid]"
    and "trace w2 = trace w @ [Job_attachpid pid cid, Job_getjid pid]"
    and "trace w3 = trace w @ [Job_attachpid pid cid, Job_getjid pid, Job_detachpid pid]"
    and "trace w4 = trace w @ [Job_attachpid pid cid, Job_getjid pid, Job_detachpid pid,
                                Log_error Attached_incorrectly, Job_attachpid pid cid]"
    and "threadid w1 = threadid w" and "threadid w2 = threadid w"
    and "threadid w3 = threadid w" and "threadid w4 = threadid w"
proof -
  have e: "w1 = snd (job_attachpid plat pid cid w)"
       "w2 = snd (job_getjid plat pid w1)"
       "w3 = snd (job_detachpid plat pid w2)"
       "w4 = snd (job_attachpid plat pid cid (emit [Log_error Attached_incorrectly] w3))"
    using a1 hp dt a2 by (auto simp: proctrack_p_has_pid_def split_beta split: if_splits)
  show "trace w1 = trace w @ [Job_attachpid pid cid]" "threadid w1 = threadid w"
    by (simp_all add: e(1) call_defs sys_simps)
  then show "trace w2 = trace w @ [Job_attachpid pid cid, Job_getjid pid]" "threadid w2 = threadid w"
    by (simp_all add: e(2) call_defs sys_simps)
  then show "trace w3 = trace w @ [Job_attachpid pid cid, Job_getjid pid, Job_detachpid pid]"
    "threadid w3 = threadid w"
    by (simp_all add: e(3) call_defs sys_simps)
  then show "trace w4 = trace w @ [Job_attachpid pid cid, Job_getjid pid, Job_detachpid pid,
                                Log_error Attached_incorrectly, Job_attachpid pid cid]"
    "threadid w4 = threadid w"
    by (simp_all add: e(4) call_defs sys_simps emit_simps)
qed

lemma add_early:
  "add_try plat step pid 0 w = (Inl rc, w1) \<Longrightarrow>
     proctrack_p_add plat step pid w = Some (rc, step, w1)"
  by (simp add: proctrack_p_add_def)

lemma add_tail:
  assumes t: "add_try plat step pid 0 w = (Inr u, w1)"
      and r: "proctrack_p_add plat step pid w = Some (rc, st, w')"
  shows "threadid w' = 0 \<and>
         (\<exists>es. trace w' = trace (end_container_thread w1) @ es \<and>
               (\<forall>e \<in> set es. \<not> is_attach e \<and> \<not> is_detach e))"
proof -
  define w2 where "w2 = end_container_thread w1"
  define apid where "apid = SLURM_ID_HASH plat
     (if het_job_id step \<noteq> 0 \<and> het_job_id step \<noteq> NO_VAL then het_job_id step else job_id step)
     (step_id step)"
  define w3 where "w3 = snd (job_setapid plat pid apid w2)"
  define w4 where "w4 = snd (sys_open plat pid w3)"
  define fd where "fd = fst (sys_open plat pid w3)"
  define w5 where "w5 = snd (sys_write plat fd w4)"
  have t3: "trace w3 = trace w2 @ [Job_setapid pid apid]" and h3: "threadid w3 = 0"
    by (simp_all add: w3_def w2_def call_defs sys_simps ect_simps)
  have t4: "trace w4 = trace w2 @ [Job_setapid pid apid, Sys_open pid]" and h4: "threadid w4 = 0"
    by (simp_all add: w4_def t3 h3 call_defs sys_simps)
  have t5: "trace w5 = trace w2 @ [Job_setapid pid apid, Sys_open pid, Sys_write fd]"
    and h5: "threadid w5 = 0"
    by (simp_all add: w5_def t4 h4 call_defs sys_simps)
  from r t consider
      (a) "w' = emit [Log_error Failed_to_set_apid] w3"
    | (b) "w' = emit [Log_error Failed_to_open] w4"
    | (c) "close_retry plat fd (emit [Log_error Failed_to_write] w5) = Some w'"
    | (d) "close_retry plat fd w5 = Some w'"
    by (auto simp: proctrack_p_add_def Let_def split_beta w2_def apid_def w3_def w4_def fd_def w5_def
        split: if_splits)
  then show ?thesis
  proof cases
    case a
    then show ?thesis by (simp add: emit_simps t3 h3 w2_def)
  next
    case b
    then show ?thesis by (simp add: emit_simps t4 h4 w2_def)
  next
    case c
    from close_retry_frame[OF c] obtain n where
      "threadid w' = 0"
      "trace w' = trace w2 @ ([Job_setapid pid apid, Sys_open pid, Sys_write fd,
          Log_error Failed_to_write] @ replicate n (Sys_close fd))"
      by (auto simp: emit_simps t5 h5)
    then show ?thesis unfolding w2_def by (intro conjI exI[of _ "_ @ _"]) auto
  next
    case d
    from close_retry_frame[OF d] obtain n where
      "threadid w' = 0"
      "trace w' = trace w2 @ ([Job_setapid pid apid, Sys_open pid, Sys_write fd]
          @ replicate n (Sys_close fd))"
      by (auto simp: t5 h5)
    then show ?thesis unfolding w2_def by (intro conjI exI[of _ "_ @ _"]) auto
  qed
qed

lemmas run_defs = start_def a_step_def call_defs sys_def scripted_def reply64_def reply32_def
  next_reply_def errno_def proctrack_p_has_pid_def emit_def EINVAL_def

subsection \<open>Buffer size of the enumeration\<close>






subsection \<open>Attach: the conflict protocol\<close>

text \<open>
  Claim C1, amended. Consider a call of attach that is not in forked mode and whose first
  call of the attach primitive fails. If \<^verbatim>\<open>errno\<close> is \<^verbatim>\<open>EINVAL\<close> and the pid is already a
  member of the target container, attach returns success and has performed no detach. If
  \<^verbatim>\<open>errno\<close> is \<^verbatim>\<open>EINVAL\<close> and the pid is not a member, attach calls the detach primitive
  once; when the detach fails, attach returns an error and does not retry; when the detach
  succeeds, attach calls the attach primitive exactly once more, and a failure of that
  retry, whatever its \<^verbatim>\<open>errno\<close>, is returned as an error with no further retry. If
  \<^verbatim>\<open>errno\<close> is not \<^verbatim>\<open>EINVAL\<close>, attach returns an error at once, with neither detach nor
  retry. Each outcome is given with the exact events of the call.
\<close>

theorem add_invalid_argument_protocol:
  assumes nf: "\<not> proctrack_forked w"
      and a1: "job_attachpid plat pid (cont_id step) w = (r1, w1)"
      and fail: "r1 = - 1"
      and hp: "proctrack_p_has_pid plat (cont_id step) pid w1 = (member, w2)"
      and dt: "job_detachpid plat pid w2 = (jd, w3)"
      and a2: "job_attachpid plat pid (cont_id step) (emit [Log_error Attached_incorrectly] w3) = (r2, w4)"
  shows
    "(errno plat w1 = EINVAL \<and> member \<longrightarrow>
        add_outcome plat step pid w =
          Some (SLURM_SUCCESS, threadid w,
                [Job_attachpid pid (cont_id step), Job_getjid pid,
                 Log_debug Add_again_to_same_container])) \<and>
     (errno plat w1 = EINVAL \<and> \<not> member \<and> jd = - 1 \<longrightarrow>
        add_outcome plat step pid w =
          Some (SLURM_ERROR, threadid w,
                [Job_attachpid pid (cont_id step), Job_getjid pid, Job_detachpid pid,
                 Log_error Could_not_detach])) \<and>
     (errno plat w1 = EINVAL \<and> \<not> member \<and> jd \<noteq> - 1 \<and> r2 = - 1 \<longrightarrow>
        add_outcome plat step pid w =
          Some (SLURM_ERROR, threadid w,
                [Job_attachpid pid (cont_id step), Job_getjid pid, Job_detachpid pid,
                 Log_error Attached_incorrectly, Job_attachpid pid (cont_id step),
                 Log_error Failed_to_attach])) \<and>
     (errno plat w1 = EINVAL \<and> \<not> member \<and> jd \<noteq> - 1 \<and> r2 \<noteq> - 1 \<longrightarrow>
        add_try plat step pid 0 w = (Inr (), w4) \<and>
        new_events w w4 =
          [Job_attachpid pid (cont_id step), Job_getjid pid, Job_detachpid pid,
           Log_error Attached_incorrectly, Job_attachpid pid (cont_id step)] \<and>
        (\<forall>rc tid evs. add_outcome plat step pid w = Some (rc, tid, evs) \<longrightarrow>
           attach_calls evs = 2 \<and> detach_calls evs = 1)) \<and>
     (errno plat w1 \<noteq> EINVAL \<longrightarrow>
        add_outcome plat step pid w =
          Some (SLURM_ERROR, threadid w,
                [Job_attachpid pid (cont_id step), Log_error Failed_to_attach]))"
proof -
  note tr = steps_trace [OF a1 hp dt a2]
  note first = add_try_first [OF a1 hp dt a2]
  have A: "add_outcome plat step pid w =
          Some (SLURM_SUCCESS, threadid w,
                [Job_attachpid pid (cont_id step), Job_getjid pid,
                 Log_debug Add_again_to_same_container])"
    if "errno plat w1 = EINVAL" "member"
    using that nf fail add_early [of plat step pid w SLURM_SUCCESS] first
    by (simp add: add_outcome_def new_events_def emit_simps tr)
  have B: "add_outcome plat step pid w =
          Some (SLURM_ERROR, threadid w,
                [Job_attachpid pid (cont_id step), Job_getjid pid, Job_detachpid pid,
                 Log_error Could_not_detach])"
    if "errno plat w1 = EINVAL" "\<not> member" "jd = - 1"
    using that nf fail add_early [of plat step pid w SLURM_ERROR] first
    by (simp add: add_outcome_def new_events_def emit_simps tr)
  have C: "add_outcome plat step pid w =
          Some (SLURM_ERROR, threadid w,
                [Job_attachpid pid (cont_id step), Job_getjid pid, Job_detachpid pid,
                 Log_error Attached_incorrectly, Job_attachpid pid (cont_id step),
                 Log_error Failed_to_attach])"
    if "errno plat w1 = EINVAL" "\<not> member" "jd \<noteq> - 1" "r2 = - 1"
    using that nf fail add_early [of plat step pid w SLURM_ERROR] first
    by (simp add: add_outcome_def new_events_def emit_simps tr)
  have E: "add_outcome plat step pid w =
          Some (SLURM_ERROR, threadid w,
                [Job_attachpid pid (cont_id step), Log_error Failed_to_attach])"
    if "errno plat w1 \<noteq> EINVAL"
    using that nf fail add_early [of plat step pid w SLURM_ERROR] first
    by (simp add: add_outcome_def new_events_def emit_simps tr)
  have D: "add_try plat step pid 0 w = (Inr (), w4) \<and>
        new_events w w4 =
          [Job_attachpid pid (cont_id step), Job_getjid pid, Job_detachpid pid,
           Log_error Attached_incorrectly, Job_attachpid pid (cont_id step)] \<and>
        (\<forall>rc tid evs. add_outcome plat step pid w = Some (rc, tid, evs) \<longrightarrow>
           attach_calls evs = 2 \<and> detach_calls evs = 1)"
    if c: "errno plat w1 = EINVAL" "\<not> member" "jd \<noteq> - 1" "r2 \<noteq> - 1"
  proof -
    have t: "add_try plat step pid 0 w = (Inr (), w4)"
      using c nf fail first by simp
    have n: "new_events w w4 =
          [Job_attachpid pid (cont_id step), Job_getjid pid, Job_detachpid pid,
           Log_error Attached_incorrectly, Job_attachpid pid (cont_id step)]"
      by (simp add: new_events_def tr)
    have "attach_calls evs = 2 \<and> detach_calls evs = 1"
      if o: "add_outcome plat step pid w = Some (rc, tid, evs)" for rc tid evs
    proof -
      from o obtain st w' where r: "proctrack_p_add plat step pid w = Some (rc, st, w')"
        and evs: "evs = new_events w w'"
        by (auto simp: add_outcome_def)
      from add_tail [OF t r] obtain es where
        "trace w' = trace (end_container_thread w4) @ es"
        "\<forall>e \<in> set es. \<not> is_attach e \<and> \<not> is_detach e"
        by blast
      then show ?thesis
        by (simp add: evs new_events_def ect_simps tr attach_calls_def detach_calls_def)
    qed
    with t n show ?thesis by blast
  qed
  from A B C D E show ?thesis by blast
qed

theorem add_invalid_argument_protocol_witness:
  "add_outcome scripted (a_step 5) 100 (start [(- 1, 22), (5, 0)] 0) =
     Some (SLURM_SUCCESS, 0,
           [Job_attachpid 100 5, Job_getjid 100, Log_debug Add_again_to_same_container]) \<and>
   add_outcome scripted (a_step 5) 100 (start [(- 1, 22), (3, 0), (- 1, 3)] 0) =
     Some (SLURM_ERROR, 0,
           [Job_attachpid 100 5, Job_getjid 100, Job_detachpid 100, Log_error Could_not_detach]) \<and>
   add_outcome scripted (a_step 5) 100 (start [(- 1, 22), (3, 0), (3, 0), (- 1, 22)] 0) =
     Some (SLURM_ERROR, 0,
           [Job_attachpid 100 5, Job_getjid 100, Job_detachpid 100,
            Log_error Attached_incorrectly, Job_attachpid 100 5, Log_error Failed_to_attach]) \<and>
   new_events (start [(- 1, 22), (3, 0), (3, 0), (5, 0)] 0)
     (snd (add_try scripted (a_step 5) 100 0 (start [(- 1, 22), (3, 0), (3, 0), (5, 0)] 0))) =
     [Job_attachpid 100 5, Job_getjid 100, Job_detachpid 100,
      Log_error Attached_incorrectly, Job_attachpid 100 5] \<and>
   add_outcome scripted (a_step 5) 100 (start [(- 1, 13)] 0) =
     Some (SLURM_ERROR, 0, [Job_attachpid 100 5, Log_error Failed_to_attach])"
proof -
  have nf: "\<not> proctrack_forked (start rs 0)" for rs :: "(int \<times> c_int) list"
    by (simp add: start_def)
  have p: "f = (fst f, snd f)" for f :: "jid_t \<times> script world"
    by simp
  have q: "f = (fst f, snd f)" for f :: "bool \<times> script world"
    by simp
  have fail: "fst (job_attachpid scripted 100 (cont_id (a_step 5)) (start ((- 1, e) # rs) 0)) = - 1"
    for e rs
    by (simp add: run_defs)
  note inst = add_invalid_argument_protocol [OF nf p _ q p p]
  show ?thesis
    using inst [OF fail [of 22 "[(5, 0)]"]]
          inst [OF fail [of 22 "[(3, 0), (- 1, 3)]"]]
          inst [OF fail [of 22 "[(3, 0), (3, 0), (- 1, 22)]"]]
          inst [OF fail [of 22 "[(3, 0), (3, 0), (5, 0)]"]]
          inst [OF fail [of 13 "[]"]]
    by (simp add: run_defs)
qed

text \<open>
  Claim C1 as stated says that whenever the pid is not a member of the target container
  the pid is detached and the attach retried exactly once. In the run below the first
  attach fails with \<^verbatim>\<open>EINVAL\<close>, the pid is in container 3 and not in the target 5, and
  the detach primitive fails: attach returns an error after a single call of the attach
  primitive.
\<close>

theorem add_detach_failure_counterexample:
  "\<not> proctrack_forked (start [(- 1, 22), (3, 0), (- 1, 3)] 0) \<and>
   fst (job_attachpid scripted 100 5 (start [(- 1, 22), (3, 0), (- 1, 3)] 0)) = - 1 \<and>
   errno scripted (snd (job_attachpid scripted 100 5 (start [(- 1, 22), (3, 0), (- 1, 3)] 0))) = EINVAL \<and>
   \<not> fst (proctrack_p_has_pid scripted 5 100
           (snd (job_attachpid scripted 100 5 (start [(- 1, 22), (3, 0), (- 1, 3)] 0)))) \<and>
   add_outcome scripted (a_step 5) 100 (start [(- 1, 22), (3, 0), (- 1, 3)] 0) =
     Some (SLURM_ERROR, 0,
           [Job_attachpid 100 5, Job_getjid 100, Job_detachpid 100, Log_error Could_not_detach]) \<and>
   attach_calls [Job_attachpid 100 5, Job_getjid 100, Job_detachpid 100, Log_error Could_not_detach] = 1"
  by code_simp

subsection \<open>Create on a step that has a container\<close>

text \<open>
  Claim C2. For every step whose container id is not zero, create returns success, hands
  back the step record as it was, leaves the state of the operating system and the thread
  handle untouched (no creation call, no new thread), and only logs.
\<close>

theorem create_existing_is_noop:
  assumes "cont_id step \<noteq> 0"
  shows "create_outcome plat step w =
           Some (SLURM_SUCCESS, step, os w, threadid w,
                 (if libjob_handle w = 0 then [Log_debug Plugin_loaded] else []) @
                 [Log_error Already_have_a_cont_id])"
  using assms
  by (simp add: create_outcome_def proctrack_p_create_def init_def emit_def new_events_def)

theorem create_existing_is_noop_witness:
  "cont_id (a_step 4) \<noteq> 0 \<and>
   create_outcome scripted (a_step 4) (start [(11, 0), (5, 0)] 3) =
     Some (SLURM_SUCCESS, a_step 4, (0, [(11, 0), (5, 0)]), 3,
           [Log_debug Plugin_loaded, Log_error Already_have_a_cont_id])"
proof -
  have h: "cont_id (a_step 4) \<noteq> 0" by (simp add: a_step_def)
  show ?thesis
    using h create_existing_is_noop [OF h, of scripted "start [(11, 0), (5, 0)] 3"]
    by (simp add: start_def)
qed

subsection \<open>Attach and the worker thread\<close>

text \<open>
  Claim C3, amended. When the first attach fails with \<^verbatim>\<open>EINVAL\<close> and the pid is found
  in the target container, attach returns success at once and leaves the thread handle as
  it was: no signal, no join. In every other call that returns success the thread handle is
  zero on return, and if a worker was outstanding on entry the call has signalled the
  condition variable and joined that thread before returning.
\<close>

theorem add_success_retires_worker:
  "(already_member plat step pid w \<longrightarrow>
      add_outcome plat step pid w =
        Some (SLURM_SUCCESS, threadid w,
              [Job_attachpid pid (cont_id step), Job_getjid pid,
               Log_debug Add_again_to_same_container])) \<and>
   (\<not> already_member plat step pid w \<longrightarrow>
      (\<forall>tid evs. add_outcome plat step pid w = Some (SLURM_SUCCESS, tid, evs) \<longrightarrow>
         tid = 0 \<and>
         (threadid w \<noteq> 0 \<longrightarrow>
            (\<exists>pre post. evs = pre @
               [Mutex_lock Thread_mutex, Mutex_lock Notify_mutex, Cond_signal,
                Mutex_unlock Notify_mutex, Thread_join (threadid w),
                Mutex_unlock Thread_mutex] @ post))))"
proof -
  obtain r1 w1 where a1: "job_attachpid plat pid (cont_id step) w = (r1, w1)"
    by (cases "job_attachpid plat pid (cont_id step) w")
  obtain member w2 where hp: "proctrack_p_has_pid plat (cont_id step) pid w1 = (member, w2)"
    by (cases "proctrack_p_has_pid plat (cont_id step) pid w1")
  obtain jd w3 where dt: "job_detachpid plat pid w2 = (jd, w3)"
    by (cases "job_detachpid plat pid w2")
  obtain r2 w4 where a2:
    "job_attachpid plat pid (cont_id step) (emit [Log_error Attached_incorrectly] w3) = (r2, w4)"
    by (cases "job_attachpid plat pid (cont_id step) (emit [Log_error Attached_incorrectly] w3)")
  note tr = steps_trace [OF a1 hp dt a2]
  note first = add_try_first [OF a1 hp dt a2]
  have am: "already_member plat step pid w \<longleftrightarrow>
      \<not> proctrack_forked w \<and> r1 = - 1 \<and> errno plat w1 = EINVAL \<and> member"
    by (simp add: already_member_def a1 hp)
  have short: "add_outcome plat step pid w =
        Some (SLURM_SUCCESS, threadid w,
              [Job_attachpid pid (cont_id step), Job_getjid pid,
               Log_debug Add_again_to_same_container])"
    if "already_member plat step pid w"
    using that add_early [of plat step pid w SLURM_SUCCESS] first
    by (simp add: am add_outcome_def new_events_def emit_simps tr)
  have long: "tid = 0 \<and>
         (threadid w \<noteq> 0 \<longrightarrow>
            (\<exists>pre post. evs = pre @
               [Mutex_lock Thread_mutex, Mutex_lock Notify_mutex, Cond_signal,
                Mutex_unlock Notify_mutex, Thread_join (threadid w),
                Mutex_unlock Thread_mutex] @ post))"
    if na: "\<not> already_member plat step pid w"
      and o: "add_outcome plat step pid w = Some (SLURM_SUCCESS, tid, evs)" for tid evs
  proof -
    from o obtain st w' where r: "proctrack_p_add plat step pid w = Some (SLURM_SUCCESS, st, w')"
      and evs: "evs = new_events w w'" and tid: "tid = threadid w'"
      by (auto simp: add_outcome_def)
    obtain x v where t: "add_try plat step pid 0 w = (x, v)"
      by (cases "add_try plat step pid 0 w")
    have "\<exists>u. x = Inr u"
    proof (cases x)
      case (Inl rc)
      with t r have "rc = SLURM_SUCCESS"
        using add_early [of plat step pid w rc v] by simp
      with Inl t first na show ?thesis
        by (auto simp: am SLURM_SUCCESS_def SLURM_ERROR_def split: if_splits)
    qed simp
    then obtain u where t': "add_try plat step pid 0 w = (Inr u, v)"
      using t by blast
    have v: "threadid v = threadid w \<and> (\<exists>pre. trace v = trace w @ pre)"
      using t' first tr by (auto split: if_splits)
    then obtain pre where pre: "trace v = trace w @ pre" by blast
    from add_tail [OF t' r] obtain es where
      "threadid w' = 0" "trace w' = trace (end_container_thread v) @ es"
      by blast
    then show ?thesis
      using v pre by (auto simp: evs tid new_events_def ect_simps)
  qed
  from short long show ?thesis by blast
qed

theorem add_success_retires_worker_witness:
  "already_member scripted (a_step 5) 100 (start [(- 1, 22), (5, 0)] 7) \<and>
   add_outcome scripted (a_step 5) 100 (start [(- 1, 22), (5, 0)] 7) =
     Some (SLURM_SUCCESS, 7,
           [Job_attachpid 100 5, Job_getjid 100, Log_debug Add_again_to_same_container]) \<and>
   \<not> already_member scripted (a_step 5) 100 (start [(5, 0), (0, 0), (3, 0), (1, 0), (0, 0)] 7) \<and>
   add_outcome scripted (a_step 5) 100 (start [(5, 0), (0, 0), (3, 0), (1, 0), (0, 0)] 7) =
     Some (SLURM_SUCCESS, 0,
           [Job_attachpid 100 5, Mutex_lock Thread_mutex, Mutex_lock Notify_mutex,
            Cond_signal, Mutex_unlock Notify_mutex, Thread_join 7,
            Mutex_unlock Thread_mutex, Job_setapid 100 42, Sys_open 100, Sys_write 3,
            Sys_close 3]) \<and>
   (\<exists>pre post.
      [Job_attachpid 100 5, Mutex_lock Thread_mutex, Mutex_lock Notify_mutex,
       Cond_signal, Mutex_unlock Notify_mutex, Thread_join 7,
       Mutex_unlock Thread_mutex, Job_setapid 100 42, Sys_open 100, Sys_write 3,
       Sys_close 3] =
      pre @ [Mutex_lock Thread_mutex, Mutex_lock Notify_mutex, Cond_signal,
             Mutex_unlock Notify_mutex, Thread_join 7, Mutex_unlock Thread_mutex] @ post)"
proof -
  have m: "already_member scripted (a_step 5) 100 (start [(- 1, 22), (5, 0)] 7)"
    by code_simp
  have n: "\<not> already_member scripted (a_step 5) 100 (start [(5, 0), (0, 0), (3, 0), (1, 0), (0, 0)] 7)"
    by code_simp
  have o: "add_outcome scripted (a_step 5) 100 (start [(5, 0), (0, 0), (3, 0), (1, 0), (0, 0)] 7) =
     Some (SLURM_SUCCESS, 0,
           [Job_attachpid 100 5, Mutex_lock Thread_mutex, Mutex_lock Notify_mutex,
            Cond_signal, Mutex_unlock Notify_mutex, Thread_join 7,
            Mutex_unlock Thread_mutex, Job_setapid 100 42, Sys_open 100, Sys_write 3,
            Sys_close 3])"
    by code_simp
  have t: "threadid (start [(5, 0), (0, 0), (3, 0), (1, 0), (0, 0)] 7) = 7"
          "threadid (start [(- 1, 22), (5, 0)] 7) = 7"
          "cont_id (a_step 5) = 5"
    by (simp_all add: start_def a_step_def)
  from m add_success_retires_worker [of scripted "a_step 5" 100 "start [(- 1, 22), (5, 0)] 7"]
  have "add_outcome scripted (a_step 5) 100 (start [(- 1, 22), (5, 0)] 7) =
     Some (SLURM_SUCCESS, 7,
           [Job_attachpid 100 5, Job_getjid 100, Log_debug Add_again_to_same_container])"
    by (simp add: t)
  moreover
  from n o add_success_retires_worker
    [of scripted "a_step 5" 100 "start [(5, 0), (0, 0), (3, 0), (1, 0), (0, 0)] 7"]
  have "\<exists>pre post.
      [Job_attachpid 100 5, Mutex_lock Thread_mutex, Mutex_lock Notify_mutex,
       Cond_signal, Mutex_unlock Notify_mutex, Thread_join 7,
       Mutex_unlock Thread_mutex, Job_setapid 100 42, Sys_open 100, Sys_write 3,
       Sys_close 3] =
      pre @ [Mutex_lock Thread_mutex, Mutex_lock Notify_mutex, Cond_signal,
             Mutex_unlock Notify_mutex, Thread_join 7, Mutex_unlock Thread_mutex] @ post"
    by (simp add: t)
  ultimately show ?thesis using m n o by blast
qed

text \<open>
  Claim C3 as stated covers every successful attach. In the run below a worker (thread 7)
  is outstanding, the first attach fails with \<^verbatim>\<open>EINVAL\<close> and the pid is already in the
  target container: attach returns success and thread 7 is still recorded.
\<close>

theorem add_shortcut_keeps_worker_counterexample:
  "threadid (start [(- 1, 22), (5, 0)] 7) = 7 \<and>
   add_outcome scripted (a_step 5) 100 (start [(- 1, 22), (5, 0)] 7) =
     Some (SLURM_SUCCESS, 7,
           [Job_attachpid 100 5, Job_getjid 100, Log_debug Add_again_to_same_container])"
  by code_simp

subsection \<open>Signal, destroy, wait\<close>

text \<open>
  Claim C4, amended. With a worker pending and the signal \<^verbatim>\<open>SIGKILL\<close>, signal retires the
  worker (signal, join, handle cleared), makes no platform call and returns success. With
  a worker pending and any other signal, \<^verbatim>\<open>SIGTERM\<close> and the other terminating signals
  included, it logs the misuse, changes nothing else (the worker stays pending, no platform
  call) and returns success. With no worker pending it makes exactly one call of the
  kill primitive; the result is an error exactly when that call returns a negative value
  with \<^verbatim>\<open>errno\<close> neither \<^verbatim>\<open>ENODATA\<close> nor \<^verbatim>\<open>EBADF\<close>, and success otherwise.
\<close>


theorem signal_cases:
  "(threadid w \<noteq> 0 \<and> sig = SIGKILL \<longrightarrow>
      fst (proctrack_p_signal plat cid sig w) = SLURM_SUCCESS \<and>
      threadid (snd (proctrack_p_signal plat cid sig w)) = 0 \<and>
      os (snd (proctrack_p_signal plat cid sig w)) = os w \<and>
      new_events w (snd (proctrack_p_signal plat cid sig w)) =
        [Mutex_lock Thread_mutex, Mutex_lock Notify_mutex, Cond_signal,
         Mutex_unlock Notify_mutex, Thread_join (threadid w), Mutex_unlock Thread_mutex]) \<and>
   (threadid w \<noteq> 0 \<and> sig \<noteq> SIGKILL \<longrightarrow>
      fst (proctrack_p_signal plat cid sig w) = SLURM_SUCCESS \<and>
      threadid (snd (proctrack_p_signal plat cid sig w)) = threadid w \<and>
      os (snd (proctrack_p_signal plat cid sig w)) = os w \<and>
      new_events w (snd (proctrack_p_signal plat cid sig w)) =
        [Log_error Signal_before_anything_added]) \<and>
   (threadid w = 0 \<longrightarrow>
      snd (proctrack_p_signal plat cid sig w) = snd (job_killjid plat cid sig w) \<and>
      new_events w (snd (proctrack_p_signal plat cid sig w)) = [Job_killjid cid sig] \<and>
      (fst (proctrack_p_signal plat cid sig w) = SLURM_SUCCESS \<longleftrightarrow>
         \<not> fst (job_killjid plat cid sig w) <s 0 \<or>
         errno plat (snd (job_killjid plat cid sig w)) = ENODATA \<or>
         errno plat (snd (job_killjid plat cid sig w)) = EBADF) \<and>
      (fst (proctrack_p_signal plat cid sig w) = SLURM_ERROR \<longleftrightarrow>
         fst (job_killjid plat cid sig w) <s 0 \<and>
         errno plat (snd (job_killjid plat cid sig w)) \<noteq> ENODATA \<and>
         errno plat (snd (job_killjid plat cid sig w)) \<noteq> EBADF))"
  by (simp add: proctrack_p_signal_def end_container_thread_def job_killjid_def sys_simps
      emit_simps new_events_def SLURM_ERROR_def SLURM_SUCCESS_def split_beta)

theorem signal_cases_witness:
  "fst (proctrack_p_signal scripted 5 SIGKILL (start [] 7)) = SLURM_SUCCESS \<and>
   threadid (snd (proctrack_p_signal scripted 5 SIGKILL (start [] 7))) = 0 \<and>
   new_events (start [] 7) (snd (proctrack_p_signal scripted 5 SIGTERM (start [] 7))) =
     [Log_error Signal_before_anything_added] \<and>
   fst (proctrack_p_signal scripted 5 SIGKILL (start [(- 1, 61)] 0)) = SLURM_SUCCESS \<and>
   fst (proctrack_p_signal scripted 5 SIGKILL (start [(- 1, 3)] 0)) = SLURM_ERROR"
  using signal_cases [of "start [] 7" SIGKILL scripted 5]
        signal_cases [of "start [] 7" SIGTERM scripted 5]
        signal_cases [of "start [(- 1, 61)] 0" SIGKILL scripted 5]
        signal_cases [of "start [(- 1, 3)] 0" SIGKILL scripted 5]
  by (simp add: start_def job_killjid_def sys_def scripted_def reply32_def next_reply_def
      errno_def SIGKILL_def SIGTERM_def ENODATA_def EBADF_def word_sless_alt)

text \<open>
  Claim C4 as stated retires the worker on any termination signal. In the run below a
  worker (thread 7) is pending and the signal is \<^verbatim>\<open>SIGTERM\<close>: the call returns success,
  thread 7 is still recorded, and the only event is the log line of the misuse.
\<close>

theorem signal_sigterm_counterexample:
  "threadid (start [] 7) = 7 \<and>
   SIGTERM \<noteq> SIGKILL \<and>
   fst (proctrack_p_signal scripted 5 SIGTERM (start [] 7)) = SLURM_SUCCESS \<and>
   threadid (snd (proctrack_p_signal scripted 5 SIGTERM (start [] 7))) = 7 \<and>
   new_events (start [] 7) (snd (proctrack_p_signal scripted 5 SIGTERM (start [] 7))) =
     [Log_error Signal_before_anything_added]"
  by (simp add: proctrack_p_signal_def start_def emit_def new_events_def
      SIGTERM_def SIGKILL_def)

text \<open>
  Claim C5. For every container id, destroy returns success, whatever the thread handle
  and whatever the platform wait call returns.
\<close>


theorem destroy_always_succeeds:
  "fst (proctrack_p_destroy plat cid w) = SLURM_SUCCESS"
  by (simp add: proctrack_p_destroy_def Let_def split: prod.splits)

text \<open>
  Claim C6. With a worker pending, wait returns success and leaves the state as it was: the
  platform wait primitive is not called. With no worker pending, wait calls the platform
  wait primitive once and returns an error exactly when that call fails, success
  otherwise.
\<close>


theorem wait_pending_or_platform:
  "(threadid w \<noteq> 0 \<longrightarrow> proctrack_p_wait plat cid w = (SLURM_SUCCESS, w)) \<and>
   (threadid w = 0 \<longrightarrow>
      snd (proctrack_p_wait plat cid w) = snd (job_waitjid plat cid 0 w) \<and>
      new_events w (snd (proctrack_p_wait plat cid w)) = [Job_waitjid cid] \<and>
      (fst (proctrack_p_wait plat cid w) = SLURM_ERROR \<longleftrightarrow> fst (job_waitjid plat cid 0 w) = - 1) \<and>
      (fst (proctrack_p_wait plat cid w) = SLURM_SUCCESS \<longleftrightarrow> fst (job_waitjid plat cid 0 w) \<noteq> - 1))"
  by (simp add: proctrack_p_wait_def job_waitjid_def sys_simps new_events_def
      SLURM_ERROR_def SLURM_SUCCESS_def split_beta)

theorem wait_pending_or_platform_witness:
  "proctrack_p_wait scripted 5 (start [] 7) = (SLURM_SUCCESS, start [] 7) \<and>
   fst (proctrack_p_wait scripted 5 (start [(- 1, 3)] 0)) = SLURM_ERROR \<and>
   fst (proctrack_p_wait scripted 5 (start [(5, 0)] 0)) = SLURM_SUCCESS"
  using wait_pending_or_platform [of "start [] 7" scripted 5]
        wait_pending_or_platform [of "start [(- 1, 3)] 0" scripted 5]
        wait_pending_or_platform [of "start [(5, 0)] 0" scripted 5]
  by (simp add: start_def job_waitjid_def sys_def scripted_def reply64_def next_reply_def)

subsection \<open>Enumeration and membership test\<close>




text \<open>
  Claim C8. The membership test is true exactly when the lookup of the pid's container
  succeeds and yields the given container id; the lookup is its only effect, and a failed
  lookup gives false.
\<close>


theorem has_pid_iff_lookup:
  "(fst (proctrack_p_has_pid plat cid pid w) \<longleftrightarrow>
      fst (job_getjid plat pid w) \<noteq> - 1 \<and> fst (job_getjid plat pid w) = cid)
   \<and> snd (proctrack_p_has_pid plat cid pid w) = snd (job_getjid plat pid w)"
  by (simp add: proctrack_p_has_pid_def split: prod.splits)

subsection \<open>Attach and the step record\<close>

text \<open>
  Claim C10. Attach never writes the step record's container id: whenever the call
  returns, with success or with an error, the container id of the step is the one it had
  on entry.
\<close>

theorem add_leaves_cont_id:
  "proctrack_p_add plat step pid w = Some (rc, step', w') \<Longrightarrow> cont_id step' = cont_id step"
  by (auto simp: proctrack_p_add_def Let_def split: prod.splits sum.splits if_splits)

theorem add_leaves_cont_id_witness:
  "proctrack_p_add scripted (a_step 5) 100
     (start [(5, 0), (0, 0), (3, 0), (1, 0), (- 1, 4), (0, 0)] 7) =
     Some (SLURM_SUCCESS, a_step 5,
       \<lparr>os = (0, []), threadid = 0, libjob_handle = 0, proctrack_forked = False,
        trace = [Job_attachpid 100 5, Mutex_lock Thread_mutex, Mutex_lock Notify_mutex,
                 Cond_signal, Mutex_unlock Notify_mutex, Thread_join 7,
                 Mutex_unlock Thread_mutex, Job_setapid 100 42, Sys_open 100, Sys_write 3,
                 Sys_close 3, Sys_close 3]\<rparr>) \<and>
   cont_id (a_step 5) = 5"
proof -
  have h: "proctrack_p_add scripted (a_step 5) 100
     (start [(5, 0), (0, 0), (3, 0), (1, 0), (- 1, 4), (0, 0)] 7) =
     Some (SLURM_SUCCESS, a_step 5,
       \<lparr>os = (0, []), threadid = 0, libjob_handle = 0, proctrack_forked = False,
        trace = [Job_attachpid 100 5, Mutex_lock Thread_mutex, Mutex_lock Notify_mutex,
                 Cond_signal, Mutex_unlock Notify_mutex, Thread_join 7,
                 Mutex_unlock Thread_mutex, Job_setapid 100 42, Sys_open 100, Sys_write 3,
                 Sys_close 3, Sys_close 3]\<rparr>)"
    by code_simp
  show ?thesis
    using h add_leaves_cont_id [OF h] by (simp add: a_step_def)
qed

end
